theory Spec2Isabelle
  imports Complex_Main
begin

section \<open>The CodingExercise component (third document of src/theme.config.tsx)\<close>

text \<open>
  The only executable logic of the repository is the React component
  \<^verbatim>\<open>CodingExercise\<close>: three \<^verbatim>\<open>useState\<close> cells, an asynchronous click
  handler \<^verbatim>\<open>handleSubmit\<close>, an editor whose \<^verbatim>\<open>onChange\<close> writes the code
  cell, and the JSX that is returned.  The embedding keeps the component's own
  names.  JavaScript values that cross the network are modelled by a JSON
  datatype; \<^verbatim>\<open>undefined\<close> is a value of its own.
\<close>

subsection \<open>JavaScript values\<close>

text \<open>
  A parsed JSON document.  A number carries the value of the parsed double (JSON has
  neither NaN nor infinities, and the sign of zero is irrelevant below).  An object is
  the list of its own properties.
\<close>

datatype json =
    JNull
  | JBool bool
  | JNum real
  | JStr string
  | JArr "json list"
  | JObj "(string \<times> json) list"

datatype jsval = Undefined | Json json

text \<open>What can be thrown inside \<^verbatim>\<open>handleSubmit\<close>: \<^verbatim>\<open>fetch\<close> rejects (transport
  error), \<^verbatim>\<open>response.json()\<close> rejects (the body is not JSON), or the property read
  \<^verbatim>\<open>result.feedback\<close> throws because \<^verbatim>\<open>result\<close> is \<^verbatim>\<open>null\<close>.\<close>

datatype js_error = FetchFailed | JsonSyntaxError | NullPropertyRead

text \<open>JavaScript's ToBoolean, as used by \<^verbatim>\<open>feedback && (...)\<close>.\<close>

fun truthy :: "jsval \<Rightarrow> bool" where
  "truthy Undefined = False"
| "truthy (Json JNull) = False"
| "truthy (Json (JBool b)) = b"
| "truthy (Json (JNum x)) = (x \<noteq> 0)"
| "truthy (Json (JStr s)) = (s \<noteq> [])"
| "truthy (Json (JArr xs)) = True"
| "truthy (Json (JObj kvs)) = True"

text \<open>The property read \<^verbatim>\<open>result.feedback\<close>: a TypeError on \<^verbatim>\<open>null\<close>, the own
  property of an object when it has one, and \<^verbatim>\<open>undefined\<close> in every other case
  (booleans, numbers, strings and arrays have no property of that name).\<close>

fun read_feedback :: "json \<Rightarrow> js_error + jsval" where
  "read_feedback JNull = Inl NullPropertyRead"
| "read_feedback (JObj kvs) =
     Inr (case map_of kvs ''feedback'' of None \<Rightarrow> Undefined | Some v \<Rightarrow> Json v)"
| "read_feedback (JBool b) = Inr Undefined"
| "read_feedback (JNum x) = Inr Undefined"
| "read_feedback (JStr s) = Inr Undefined"
| "read_feedback (JArr xs) = Inr Undefined"

subsection \<open>Props, state and requests\<close>

text \<open>The props object; \<open>None\<close> is a prop that is omitted (\<^verbatim>\<open>undefined\<close>).\<close>

record props =
  initCode :: "string option"
  lesson :: "string option"
  correction :: "string option"

text \<open>A destructuring default \<^verbatim>\<open>x = ""\<close>.\<close>

definition default_empty :: "string option \<Rightarrow> string" where
  "default_empty v = (case v of None \<Rightarrow> '''' | Some s \<Rightarrow> s)"

text \<open>The three state cells: \<^verbatim>\<open>code\<close>, \<^verbatim>\<open>isGrading\<close>, \<^verbatim>\<open>feedback\<close>.\<close>

record widget =
  code :: string
  isGrading :: bool
  feedback :: jsval

text \<open>The arguments of the \<^verbatim>\<open>fetch\<close> call.  The body is the value handed to
  \<^verbatim>\<open>JSON.stringify\<close>, before serialisation.\<close>

record request =
  url :: string
  http_method :: string
  body :: json
  headers :: "(string \<times> string) list"

text \<open>
  What the environment gives back to one call.  The handler awaits twice,
  \<^verbatim>\<open>await fetch(...)\<close> and \<^verbatim>\<open>await response.json()\<close>, and writes no state in
  between, so one value describes how the pair of awaits ends: the first rejects, the
  second rejects, or both are fulfilled with an HTTP status and a parsed body.  The
  handler never looks at the status.
\<close>

datatype outcome =
    FetchRejected
  | JsonRejected nat
  | Parsed nat json

subsection \<open>Effects\<close>

text \<open>The statements of the component that act on something: the three state setters
  and the network call.\<close>

datatype effect =
    SetCode string
  | SetIsGrading bool
  | SetFeedback jsval
  | Fetch request

fun set_state :: "effect \<Rightarrow> widget \<Rightarrow> widget" where
  "set_state (SetCode v) w = w\<lparr>code := v\<rparr>"
| "set_state (SetIsGrading b) w = w\<lparr>isGrading := b\<rparr>"
| "set_state (SetFeedback v) w = w\<lparr>feedback := v\<rparr>"
| "set_state (Fetch r) w = w"

subsection \<open>The component\<close>

text \<open>First render: \<^verbatim>\<open>useState(initCode)\<close>, \<^verbatim>\<open>useState(false)\<close>, \<^verbatim>\<open>useState("")\<close>.\<close>

definition CodingExercise_mount :: "props \<Rightarrow> widget" where
  "CodingExercise_mount p =
     \<lparr>code = default_empty (initCode p), isGrading = False, feedback = Json (JStr '''')\<rparr>"

text \<open>
  \<^verbatim>\<open>handleSubmit\<close> up to its first \<^verbatim>\<open>await\<close>: \<^verbatim>\<open>setIsGrading(true)\<close>, then
  the \<^verbatim>\<open>fetch\<close> call, whose arguments are \<open>grade_request\<close>.  It has no guard of
  its own.  The closure holds \<^verbatim>\<open>code\<close> of the render in which the click happened
  and the two defaulted props.
\<close>

definition grade_request :: "props \<Rightarrow> widget \<Rightarrow> request" where
  "grade_request p w =
     \<lparr>url = ''/api/grade'',
      http_method = ''POST'',
      body = JObj [(''code'', JStr (code w)),
                   (''lesson'', JStr (default_empty (lesson p))),
                   (''correction'', JStr (default_empty (correction p)))],
      headers = [(''Content-Type'', ''application/json'')]\<rparr>"

definition handleSubmit_begin :: "props \<Rightarrow> widget \<Rightarrow> effect list" where
  "handleSubmit_begin p w = [SetIsGrading True, Fetch (grade_request p w)]"

text \<open>
  \<^verbatim>\<open>handleSubmit\<close> after the awaits.  There is no \<^verbatim>\<open>try\<close>, \<^verbatim>\<open>catch\<close> or
  \<^verbatim>\<open>finally\<close>: a rejection or a throw ends the handler before either setter runs.
\<close>

definition handleSubmit_resume :: "outcome \<Rightarrow> js_error + effect list" where
  "handleSubmit_resume out =
     (case out of
        FetchRejected \<Rightarrow> Inl FetchFailed
      | JsonRejected status \<Rightarrow> Inl JsonSyntaxError
      | Parsed status result \<Rightarrow>
          (case read_feedback result of
             Inl e \<Rightarrow> Inl e
           | Inr v \<Rightarrow> Inr [SetFeedback v, SetIsGrading False]))"

text \<open>The editor's \<^verbatim>\<open>onChange={(value) => setCode(value)}\<close>.\<close>

definition onChange :: "string \<Rightarrow> effect list" where
  "onChange v = [SetCode v]"

text \<open>
  The returned JSX, reduced to what depends on the state: the editor's value, the
  button's \<^verbatim>\<open>disabled\<close> attribute and label, and the value of
  \<^verbatim>\<open>feedback && (<div>...<Markdown>{feedback}</Markdown>...</div>)\<close>, which is the
  panel when \<^verbatim>\<open>feedback\<close> is truthy and \<^verbatim>\<open>feedback\<close> itself otherwise.
\<close>

datatype node = Panel jsval | Bare jsval

record view =
  editor_value :: string
  button_disabled :: bool
  button_label :: string
  feedback_node :: node

definition CodingExercise_render :: "widget \<Rightarrow> view" where
  "CodingExercise_render w =
     \<lparr>editor_value = code w,
      button_disabled = isGrading w,
      button_label = (if isGrading w then ''Grading...'' else ''Submit''),
      feedback_node = (if truthy (feedback w) then Panel (feedback w) else Bare (feedback w))\<rparr>"

subsection \<open>The widget in its environment\<close>

text \<open>
  The widget together with the network calls that have been made and not yet answered
  and the rejections of \<^verbatim>\<open>handleSubmit\<close>'s promise, which nothing handles.  The
  cells of \<open>ui\<close> are the current state: a setter writes them at once.
\<close>

record system =
  ui :: widget
  inflight :: "request list"
  unhandled :: "js_error list"

fun perform :: "system \<Rightarrow> effect \<Rightarrow> system" where
  "perform s (Fetch r) = s\<lparr>inflight := inflight s @ [r]\<rparr>"
| "perform s e = s\<lparr>ui := set_state e (ui s)\<rparr>"

definition mount :: "props \<Rightarrow> system" where
  "mount p = \<lparr>ui = CodingExercise_mount p, inflight = [], unhandled = []\<rparr>"

text \<open>
  The answer to the oldest call in flight resumes the handler that made it; there is
  nothing to resume when no call is in flight.  The resumed half of the handler only
  calls setters, so it does not depend on the render that created it.
\<close>

definition answer :: "system \<Rightarrow> outcome \<Rightarrow> system" where
  "answer s out =
     (case inflight s of
        [] \<Rightarrow> s
      | r # rs \<Rightarrow>
          (case handleSubmit_resume out of
             Inl e \<Rightarrow> s\<lparr>inflight := rs, unhandled := unhandled s @ [e]\<rparr>
           | Inr effs \<Rightarrow> foldl perform (s\<lparr>inflight := rs\<rparr>) effs))"

text \<open>
  The page.  A setter changes the current state, but what is on the page is the last
  render that React has committed: the button's \<^verbatim>\<open>disabled={isGrading}\<close> and the
  values closed over by \<^verbatim>\<open>handleSubmit\<close> are those of \<open>rendered\<close>, the state cells
  as they were at that render, until the next commit.
\<close>

record page =
  current :: system
  rendered :: widget

definition mount_page :: "props \<Rightarrow> page" where
  "mount_page p = \<lparr>current = mount p, rendered = CodingExercise_mount p\<rparr>"

text \<open>React renders again and commits: the page shows the current state.\<close>

definition commit :: "page \<Rightarrow> page" where
  "commit pg = pg\<lparr>rendered := ui (current pg)\<rparr>"

text \<open>
  The events of the page.  A click on the button runs \<^verbatim>\<open>onClick={handleSubmit}\<close>
  unless the button on the page is disabled: a disabled button dispatches no click.
  The handler that runs is the one of the committed render, with that render's
  \<^verbatim>\<open>code\<close>; it tests nothing itself.  An edit runs \<^verbatim>\<open>onChange\<close>.  \<open>Settle\<close> is the
  answer to the oldest call in flight.
\<close>

datatype event = Click | Change string | Settle outcome

fun dispatch :: "props \<Rightarrow> page \<Rightarrow> event \<Rightarrow> page" where
  "dispatch p pg Click =
     (if button_disabled (CodingExercise_render (rendered pg)) then pg
      else pg\<lparr>current := foldl perform (current pg) (handleSubmit_begin p (rendered pg))\<rparr>)"
| "dispatch p pg (Change v) = pg\<lparr>current := foldl perform (current pg) (onChange v)\<rparr>"
| "dispatch p pg (Settle out) = pg\<lparr>current := answer (current pg) out\<rparr>"

text \<open>
  An execution of the page is any sequence of events and commits: nothing in the
  component forces a commit between two events.
\<close>

datatype action = Event event | Commit

fun act :: "props \<Rightarrow> page \<Rightarrow> action \<Rightarrow> page" where
  "act p pg (Event e) = dispatch p pg e"
| "act p pg Commit = commit pg"

definition exec :: "props \<Rightarrow> page \<Rightarrow> action list \<Rightarrow> page" where
  "exec p pg acts = foldl (act p) pg acts"

text \<open>
  The special case in which the page is up to date when the event arrives: React has
  committed the current state before the event is dispatched.  \<open>step\<close> is one such
  event and \<open>run\<close> a sequence of them; \<open>run\<close> therefore covers the executions with a
  commit before every event and no others (\<open>run_exec\<close> below).
\<close>

definition step :: "props \<Rightarrow> system \<Rightarrow> event \<Rightarrow> system" where
  "step p s e = current (dispatch p \<lparr>current = s, rendered = ui s\<rparr> e)"

definition run :: "props \<Rightarrow> system \<Rightarrow> event list \<Rightarrow> system" where
  "run p s es = foldl (step p) s es"

text \<open>
  The executions in which a commit separates any two clicks.  The flag says whether a
  click has been dispatched since the last commit.
\<close>

fun commit_between_clicks :: "bool \<Rightarrow> action list \<Rightarrow> bool" where
  "commit_between_clicks clicked [] = True"
| "commit_between_clicks clicked (Commit # acts) = commit_between_clicks False acts"
| "commit_between_clicks clicked (Event Click # acts) =
     (\<not> clicked \<and> commit_between_clicks True acts)"
| "commit_between_clicks clicked (Event (Change v) # acts) =
     commit_between_clicks clicked acts"
| "commit_between_clicks clicked (Event (Settle out) # acts) =
     commit_between_clicks clicked acts"

text \<open>The network calls among a list of effects, in order.\<close>

fun fetches :: "effect list \<Rightarrow> request list" where
  "fetches [] = []"
| "fetches (Fetch r # es) = r # fetches es"
| "fetches (e # es) = fetches es"

text \<open>The state cells written by a list of effects.\<close>

fun writes_code :: "effect \<Rightarrow> bool" where
  "writes_code (SetCode v) = True"
| "writes_code e = False"

subsection \<open>Scenarios\<close>

text \<open>The end-to-end scenario of the specification: seed text, lesson and correction.\<close>

definition scenario_props :: props where
  "scenario_props =
     \<lparr>initCode = Some ''print('hi')'', lesson = Some ''lesson-1'',
      correction = Some ''def f(): pass''\<rparr>"

text \<open>A widget used with no props at all.\<close>

definition no_props :: props where
  "no_props = \<lparr>initCode = None, lesson = None, correction = None\<rparr>"

text \<open>The mocked answer \<^verbatim>\<open>{feedback: "Looks good"}\<close> with status 200.\<close>

definition looks_good :: outcome where
  "looks_good = Parsed 200 (JObj [(''feedback'', JStr ''Looks good'')])"

text \<open>The scenario widget after one successful submission, and after a second
  submission whose \<^verbatim>\<open>fetch\<close> is rejected by a network error.\<close>

definition shown :: system where
  "shown = run scenario_props (mount scenario_props) [Click, Settle looks_good]"

definition failed :: system where
  "failed = run scenario_props shown [Click, Settle FetchRejected]"

text \<open>The scenario page after a click and the commit of the render that shows it, and
  an execution with three clicks, each on a render of its own.\<close>

definition submitting_page :: page where
  "submitting_page = exec scenario_props (mount_page scenario_props) [Event Click, Commit]"

definition patient_clicks :: "action list" where
  "patient_clicks =
     [Event Click, Commit, Event Click, Event (Settle looks_good), Commit, Event Click]"

subsection \<open>Invariants\<close>

text \<open>At most one call is in flight, and only while \<^verbatim>\<open>isGrading\<close> is set.\<close>

definition one_call :: "system \<Rightarrow> bool" where
  "one_call s \<longleftrightarrow> length (inflight s) \<le> 1 \<and> (inflight s \<noteq> [] \<longrightarrow> isGrading (ui s))"

text \<open>The same on a page, together with what a click relies on: unless a click has been
  dispatched since the last commit, a flag that is set is also set on the page.\<close>

definition click_safe :: "bool \<Rightarrow> page \<Rightarrow> bool" where
  "click_safe clicked pg \<longleftrightarrow>
     one_call (current pg) \<and>
     (\<not> clicked \<longrightarrow> isGrading (ui (current pg)) \<longrightarrow> isGrading (rendered pg))"

text \<open>The flag is set and no call is in flight whose answer could clear it.\<close>

definition stuck :: "system \<Rightarrow> bool" where
  "stuck s \<longleftrightarrow> isGrading (ui s) \<and> inflight s = []"

section \<open>Properties\<close>

subsection \<open>The events, one by one\<close>

lemma answer_none: "inflight s = [] \<Longrightarrow> answer s out = s"
  by (simp add: answer_def)

lemma answer_rejected:
  "inflight s = r # rs \<Longrightarrow> handleSubmit_resume out = Inl e \<Longrightarrow>
   answer s out = s\<lparr>inflight := rs, unhandled := unhandled s @ [e]\<rparr>"
  by (simp add: answer_def)

lemma answer_stored:
  "inflight s = r # rs \<Longrightarrow> handleSubmit_resume out = Inr [SetFeedback v, SetIsGrading False] \<Longrightarrow>
   answer s out = s\<lparr>inflight := rs, ui := (ui s)\<lparr>feedback := v, isGrading := False\<rparr>\<rparr>"
  by (simp add: answer_def)

lemma step_Click_idle:
  "\<not> isGrading (ui s) \<Longrightarrow>
   step p s Click =
     s\<lparr>ui := (ui s)\<lparr>isGrading := True\<rparr>, inflight := inflight s @ [grade_request p (ui s)]\<rparr>"
  by (simp add: step_def CodingExercise_render_def handleSubmit_begin_def)

lemma step_Click_grading: "isGrading (ui s) \<Longrightarrow> step p s Click = s"
  by (simp add: step_def CodingExercise_render_def)

lemma step_Change: "step p s (Change v) = s\<lparr>ui := (ui s)\<lparr>code := v\<rparr>\<rparr>"
  by (simp add: step_def onChange_def)

lemma step_Settle: "step p s (Settle out) = answer s out"
  by (simp add: step_def)

lemma step_Settle_none: "inflight s = [] \<Longrightarrow> step p s (Settle out) = s"
  by (simp add: step_Settle answer_none)

lemma step_Settle_rejected:
  "inflight s = r # rs \<Longrightarrow> handleSubmit_resume out = Inl e \<Longrightarrow>
   step p s (Settle out) = s\<lparr>inflight := rs, unhandled := unhandled s @ [e]\<rparr>"
  by (simp add: step_Settle answer_rejected)

lemma step_Settle_stored:
  "inflight s = r # rs \<Longrightarrow> handleSubmit_resume out = Inr [SetFeedback v, SetIsGrading False] \<Longrightarrow>
   step p s (Settle out) = s\<lparr>inflight := rs, ui := (ui s)\<lparr>feedback := v, isGrading := False\<rparr>\<rparr>"
  by (simp add: step_Settle answer_stored)

text \<open>An event on an up-to-date page is a commit followed by the event, and a run is
  the execution that commits before every event.\<close>

lemma step_act: "step p (current pg) e = current (act p (act p pg Commit) (Event e))"
proof -
  have "act p pg Commit = \<lparr>current = current pg, rendered = ui (current pg)\<rparr>"
    by (simp add: commit_def)
  then show ?thesis by (simp add: step_def)
qed

lemma exec_Nil: "exec p pg [] = pg"
  by (simp add: exec_def)

lemma exec_Cons: "exec p pg (a # acts) = exec p (act p pg a) acts"
  by (simp add: exec_def)

lemma run_exec:
  "run p (current pg) es = current (exec p pg (concat (map (\<lambda>e. [Commit, Event e]) es)))"
proof (induction es arbitrary: pg)
  case Nil
  show ?case by (simp add: run_def exec_Nil)
next
  case (Cons e es)
  have "run p (current pg) (e # es) = run p (step p (current pg) e) es"
    by (simp add: run_def)
  also have "\<dots> = run p (current (act p (act p pg Commit) (Event e))) es"
    by (simp only: step_act)
  also have "\<dots> = current (exec p (act p (act p pg Commit) (Event e))
                        (concat (map (\<lambda>e. [Commit, Event e]) es)))"
    by (rule Cons.IH)
  finally show ?case by (simp add: exec_Cons)
qed

lemma resume_total:
  "(\<exists>e. handleSubmit_resume out = Inl e) \<or>
   (\<exists>v. handleSubmit_resume out = Inr [SetFeedback v, SetIsGrading False])"
proof (cases out)
  case (Parsed st result)
  then show ?thesis
    by (cases "read_feedback result") (simp_all add: handleSubmit_resume_def)
qed (simp_all add: handleSubmit_resume_def)

lemma resume_cases:
  obtains (rejected) e where "handleSubmit_resume out = Inl e"
  | (stored) v where "handleSubmit_resume out = Inr [SetFeedback v, SetIsGrading False]"
  using resume_total [of out] by blast

lemma resume_rejections:
  "handleSubmit_resume FetchRejected = Inl FetchFailed"
  "handleSubmit_resume (JsonRejected st) = Inl JsonSyntaxError"
  "handleSubmit_resume (Parsed st JNull) = Inl NullPropertyRead"
  by (simp_all add: handleSubmit_resume_def)

lemma resume_parsed:
  "read_feedback result = Inr v \<Longrightarrow>
   handleSubmit_resume (Parsed st result) = Inr [SetFeedback v, SetIsGrading False]"
  by (simp add: handleSubmit_resume_def)

lemma run_Nil: "run p s [] = s"
  by (simp add: run_def)

lemma run_Cons: "run p s (e # es) = run p (step p s e) es"
  by (simp add: run_def)

lemma mount_idle: "\<not> isGrading (ui (mount p))" "inflight (mount p) = []"
  by (simp_all add: mount_def CodingExercise_mount_def)

lemma code_step_Settle: "code (ui (step p s (Settle out))) = code (ui s)"
proof (cases "inflight s")
  case Nil
  then show ?thesis by (simp add: step_Settle_none)
next
  case (Cons r rs)
  show ?thesis
  proof (cases out rule: resume_cases)
    case (rejected e)
    with Cons show ?thesis by (simp add: step_Settle_rejected)
  next
    case (stored v)
    with Cons show ?thesis by (simp add: step_Settle_stored)
  qed
qed

lemma code_step_Click: "code (ui (step p s Click)) = code (ui s)"
  by (cases "isGrading (ui s)") (simp_all add: step_Click_grading step_Click_idle)

subsection \<open>One call at a time\<close>

text \<open>
  \<^verbatim>\<open>handleSubmit\<close> does not test \<^verbatim>\<open>isGrading\<close>: whenever it runs it makes a call.
  What keeps a second call from being made is that it does not run, because the
  button that triggers it is rendered disabled.
\<close>

lemma handleSubmit_begin_unguarded:
  "fetches (handleSubmit_begin p (w\<lparr>isGrading := True\<rparr>)) = [grade_request p w]"
  by (simp add: handleSubmit_begin_def grade_request_def)

lemma one_call_mount: "one_call (mount p)"
  by (simp add: one_call_def mount_def)

lemma one_call_step:
  assumes inv: "one_call s"
  shows "one_call (step p s e)"
proof (cases e)
  case Click
  show ?thesis
  proof (cases "isGrading (ui s)")
    case True
    with inv Click show ?thesis by (simp add: step_Click_grading)
  next
    case False
    with inv have "inflight s = []" by (auto simp: one_call_def)
    with False Click show ?thesis by (simp add: step_Click_idle one_call_def)
  qed
next
  case (Change v)
  with inv show ?thesis by (simp add: step_Change one_call_def)
next
  case (Settle out)
  show ?thesis
  proof (cases "inflight s")
    case Nil
    with inv Settle show ?thesis by (simp add: step_Settle_none)
  next
    case (Cons r rs)
    with inv have rs: "rs = []" by (simp add: one_call_def)
    show ?thesis
    proof (cases out rule: resume_cases)
      case (rejected e)
      with Cons rs Settle show ?thesis by (simp add: step_Settle_rejected one_call_def)
    next
      case (stored v)
      with Cons rs Settle show ?thesis by (simp add: step_Settle_stored one_call_def)
    qed
  qed
qed

lemma one_call_run: "one_call s \<Longrightarrow> one_call (run p s es)"
  by (induction es arbitrary: s) (simp_all add: run_Nil run_Cons one_call_step)

text \<open>The same invariant over every execution that commits between two clicks.\<close>

lemma one_call_answer: "one_call s \<Longrightarrow> one_call (answer s out)"
  using one_call_step [of s p "Settle out"] by (simp add: step_Settle)

lemma isGrading_answer: "isGrading (ui (answer s out)) \<Longrightarrow> isGrading (ui s)"
proof (cases "inflight s")
  case Nil
  assume "isGrading (ui (answer s out))"
  with Nil show ?thesis by (simp add: answer_none)
next
  case (Cons r rs)
  assume g: "isGrading (ui (answer s out))"
  show ?thesis
  proof (cases out rule: resume_cases)
    case (rejected e)
    with Cons g show ?thesis by (simp add: answer_rejected)
  next
    case (stored v)
    with Cons g show ?thesis by (simp add: answer_stored)
  qed
qed

lemma click_safe_mount: "click_safe False (mount_page p)"
  by (simp add: click_safe_def mount_page_def one_call_mount) (simp add: mount_def)

lemma click_safe_commit: "click_safe c pg \<Longrightarrow> click_safe False (commit pg)"
  by (simp add: click_safe_def commit_def)

lemma click_safe_Click:
  assumes "click_safe False pg"
  shows "click_safe True (dispatch p pg Click)"
proof (cases "isGrading (rendered pg)")
  case True
  with assms show ?thesis by (simp add: click_safe_def CodingExercise_render_def)
next
  case False
  with assms have idle: "\<not> isGrading (ui (current pg))"
    by (auto simp: click_safe_def)
  with assms have "inflight (current pg) = []"
    by (auto simp: click_safe_def one_call_def)
  with False show ?thesis
    by (simp add: click_safe_def one_call_def CodingExercise_render_def handleSubmit_begin_def)
qed

lemma click_safe_Change: "click_safe c pg \<Longrightarrow> click_safe c (dispatch p pg (Change v))"
  by (simp add: click_safe_def one_call_def onChange_def)

lemma click_safe_Settle:
  assumes "click_safe c pg"
  shows "click_safe c (dispatch p pg (Settle out))"
proof -
  from assms have "one_call (answer (current pg) out)"
    by (simp add: click_safe_def one_call_answer)
  moreover have "isGrading (rendered pg)"
    if "\<not> c" and "isGrading (ui (answer (current pg) out))"
    using that assms isGrading_answer [of "current pg" out] by (simp add: click_safe_def)
  ultimately show ?thesis by (simp add: click_safe_def)
qed

lemma click_safe_exec:
  "click_safe c pg \<Longrightarrow> commit_between_clicks c acts \<Longrightarrow> one_call (current (exec p pg acts))"
proof (induction c acts arbitrary: pg rule: commit_between_clicks.induct)
  case (1 clicked)
  then show ?case by (simp add: exec_Nil click_safe_def)
next
  case (2 clicked acts)
  from "2.prems"(1) have "click_safe False (commit pg)"
    by (rule click_safe_commit)
  moreover from "2.prems"(2) have "commit_between_clicks False acts"
    by simp
  ultimately have "one_call (current (exec p (commit pg) acts))"
    by (rule "2.IH")
  then show ?case by (simp only: exec_Cons act.simps)
next
  case (3 clicked acts)
  from "3.prems"(2) have fresh: "\<not> clicked" and rest: "commit_between_clicks True acts"
    by simp_all
  from "3.prems"(1) fresh have "click_safe False pg"
    by simp
  then have "click_safe True (dispatch p pg Click)"
    by (rule click_safe_Click)
  with fresh rest have "one_call (current (exec p (dispatch p pg Click) acts))"
    by (blast intro: "3.IH")
  then show ?case by (simp only: exec_Cons act.simps)
next
  case (4 clicked v acts)
  from "4.prems"(1) have "click_safe clicked (dispatch p pg (Change v))"
    by (rule click_safe_Change)
  moreover from "4.prems"(2) have "commit_between_clicks clicked acts"
    by simp
  ultimately have "one_call (current (exec p (dispatch p pg (Change v)) acts))"
    by (rule "4.IH")
  then show ?case by (simp only: exec_Cons act.simps)
next
  case (5 clicked out acts)
  from "5.prems"(1) have "click_safe clicked (dispatch p pg (Settle out))"
    by (rule click_safe_Settle)
  moreover from "5.prems"(2) have "commit_between_clicks clicked acts"
    by simp
  ultimately have "one_call (current (exec p (dispatch p pg (Settle out)) acts))"
    by (rule "5.IH")
  then show ?case by (simp only: exec_Cons act.simps)
qed

subsection \<open>A rejected submission\<close>

lemma stuck_step: "stuck s \<Longrightarrow> stuck (step p s e)"
  by (cases e) (simp_all add: stuck_def step_Click_grading step_Settle_none step_Change)

lemma stuck_run: "stuck s \<Longrightarrow> stuck (run p s es)"
  by (induction es arbitrary: s) (simp_all add: run_Nil run_Cons stuck_step)

lemma submit_rejected_stuck:
  assumes "\<not> isGrading (ui s)" and "inflight s = []" and "handleSubmit_resume out = Inl e"
  shows "stuck (run p s [Click, Settle out])"
  using assms by (simp add: run_Cons run_Nil step_Click_idle step_Settle_rejected stuck_def)

lemma shown_eq:
  "shown = \<lparr>ui = \<lparr>code = ''print('hi')'', isGrading = False,
                  feedback = Json (JStr ''Looks good'')\<rparr>,
            inflight = [], unhandled = []\<rparr>"
proof -
  have "handleSubmit_resume looks_good
          = Inr [SetFeedback (Json (JStr ''Looks good'')), SetIsGrading False]"
    by (simp add: looks_good_def handleSubmit_resume_def)
  then have "shown = (mount scenario_props)
      \<lparr>inflight := [], ui := (ui (mount scenario_props))
          \<lparr>isGrading := True, feedback := Json (JStr ''Looks good''), isGrading := False\<rparr>\<rparr>"
    by (simp add: shown_def run_Cons run_Nil step_Click_idle mount_idle step_Settle_stored)
  then show ?thesis
    by (simp add: mount_def CodingExercise_mount_def scenario_props_def default_empty_def)
qed

section \<open>The claims of the specification\<close>

text \<open>
  C1.  The specification asks that after any submit resolves, by success or by
  failure, the submitting flag is cleared and the widget is Idle again.  The handler
  clears the flag only on the path on which both awaits are fulfilled and the property
  read succeeds.  When \<^verbatim>\<open>fetch\<close> rejects, when \<^verbatim>\<open>response.json()\<close> rejects, or when the
  body is \<^verbatim>\<open>null\<close>, the handler ends before \<^verbatim>\<open>setIsGrading(false)\<close>: starting from a
  freshly mounted widget, the flag is set after the failed submission and stays set
  whatever events follow on the committed page, and the button stays disabled.
\<close>

theorem submit_rejected_stays_grading:
  "isGrading (ui (run p (run p (mount p) [Click, Settle FetchRejected]) es)) \<and>
   isGrading (ui (run p (run p (mount p) [Click, Settle (JsonRejected st)]) es)) \<and>
   isGrading (ui (run p (run p (mount p) [Click, Settle (Parsed st JNull)]) es)) \<and>
   button_disabled
     (CodingExercise_render (ui (run p (run p (mount p) [Click, Settle FetchRejected]) es)))"
proof -
  have *: "isGrading (ui (run p (run p (mount p) [Click, Settle out]) es))"
    if "handleSubmit_resume out = Inl e" for out e
  proof -
    have "stuck (run p (mount p) [Click, Settle out])"
      using that by (simp add: submit_rejected_stuck mount_idle)
    then have "stuck (run p (run p (mount p) [Click, Settle out]) es)"
      by (rule stuck_run)
    then show ?thesis by (simp add: stuck_def)
  qed
  show ?thesis
    by (simp add: * resume_rejections CodingExercise_render_def)
qed

text \<open>
  C2, as stated: when a submit fails, the widget returns to Idle, displays an explicit
  error indication instead of the previous feedback, and the button is actionable
  again.  In the scenario of the specification, after a first submission answered with
  "Looks good" and a second one that meets a network error, none of the three holds:
  the flag is set, the button is disabled, and the panel shows "Looks good" exactly as
  it did before the failed submission.
\<close>

theorem network_error_keeps_previous_feedback:
  "isGrading (ui failed) \<and>
   button_disabled (CodingExercise_render (ui failed)) \<and>
   feedback_node (CodingExercise_render (ui failed)) = Panel (Json (JStr ''Looks good'')) \<and>
   feedback_node (CodingExercise_render (ui failed))
     = feedback_node (CodingExercise_render (ui shown))"
  by (simp add: failed_def shown_eq run_Cons run_Nil step_Click_idle step_Settle_rejected
        resume_rejections CodingExercise_render_def)

text \<open>
  C2, amended.  The component has no error state and renders no error.  When a submit
  from an idle widget fails because \<^verbatim>\<open>fetch\<close> rejects, because the body is not JSON, or
  because the body is \<^verbatim>\<open>null\<close>, the stored feedback and the rendered feedback node are
  those from before the submit, and the error is only recorded as an unhandled
  rejection.  When the answer has any status, a non-success one included, and a JSON
  body on which the property read succeeds, the handler stores the body's
  \<^verbatim>\<open>feedback\<close> property as on success, clears the flag, and the button is enabled.
\<close>

theorem failed_submit_shows_no_error:
  assumes "\<not> isGrading (ui s)" and "inflight s = []"
    and "out \<in> {FetchRejected, JsonRejected st', Parsed st' JNull}"
    and "read_feedback result = Inr v"
  shows "feedback (ui (run p s [Click, Settle out])) = feedback (ui s) \<and>
         feedback_node (CodingExercise_render (ui (run p s [Click, Settle out])))
           = feedback_node (CodingExercise_render (ui s)) \<and>
         (\<exists>e. unhandled (run p s [Click, Settle out]) = unhandled s @ [e]) \<and>
         feedback (ui (run p s [Click, Settle (Parsed st result)])) = v \<and>
         \<not> isGrading (ui (run p s [Click, Settle (Parsed st result)])) \<and>
         \<not> button_disabled
             (CodingExercise_render (ui (run p s [Click, Settle (Parsed st result)]))) \<and>
         unhandled (run p s [Click, Settle (Parsed st result)]) = unhandled s"
proof -
  from assms(3) obtain e where rej: "handleSubmit_resume out = Inl e"
    by (auto simp: resume_rejections)
  from assms(4) have ok:
    "handleSubmit_resume (Parsed st result) = Inr [SetFeedback v, SetIsGrading False]"
    by (rule resume_parsed)
  have a: "run p s [Click, Settle out]
             = s\<lparr>ui := (ui s)\<lparr>isGrading := True\<rparr>, inflight := [],
                 unhandled := unhandled s @ [e]\<rparr>"
    using assms(1,2) rej by (simp add: run_Cons run_Nil step_Click_idle step_Settle_rejected)
  have b: "run p s [Click, Settle (Parsed st result)]
             = s\<lparr>ui := (ui s)\<lparr>feedback := v, isGrading := False\<rparr>, inflight := []\<rparr>"
    using assms(1,2) ok by (simp add: run_Cons run_Nil step_Click_idle step_Settle_stored)
  show ?thesis
    by (simp add: a b CodingExercise_render_def)
qed

theorem failed_submit_shows_no_error_witness:
  "\<not> isGrading (ui shown) \<and> inflight shown = [] \<and>
   read_feedback (JObj [(''error'', JStr ''boom'')]) = Inr Undefined \<and>
   feedback_node (CodingExercise_render (ui (run scenario_props shown [Click, Settle FetchRejected])))
     = Panel (Json (JStr ''Looks good'')) \<and>
   feedback_node (CodingExercise_render
       (ui (run scenario_props shown [Click, Settle (Parsed 500 (JObj [(''error'', JStr ''boom'')]))])))
     = Bare Undefined \<and>
   \<not> isGrading
       (ui (run scenario_props shown [Click, Settle (Parsed 500 (JObj [(''error'', JStr ''boom'')]))]))"
proof -
  have h1: "\<not> isGrading (ui shown)" and h2: "inflight shown = []"
    by (simp_all add: shown_eq)
  have h3: "FetchRejected \<in> {FetchRejected, JsonRejected 0, Parsed 0 JNull}"
    by simp
  have h4: "read_feedback (JObj [(''error'', JStr ''boom'')]) = Inr Undefined"
    by simp
  from failed_submit_shows_no_error [OF h1 h2 h3 h4, of scenario_props 500]
  show ?thesis
    using h1 h2 h4 by (simp add: CodingExercise_render_def shown_eq)
qed

text \<open>
  C3, as stated: in every reachable state at most one network call is outstanding, and
  submitting while the widget is Submitting makes no second call.  The only guard is the
  \<^verbatim>\<open>disabled={isGrading}\<close> of the committed render; \<^verbatim>\<open>handleSubmit\<close> tests nothing.
  In the scenario of the specification, a first click sets the flag, and a second click
  dispatched before React has committed the render that disables the button runs the
  handler again: two calls are in flight.
\<close>

theorem two_clicks_one_render_two_calls:
  "isGrading
     (ui (current (exec scenario_props (mount_page scenario_props) [Event Click]))) \<and>
   inflight (current (exec scenario_props (mount_page scenario_props) [Event Click, Event Click]))
     = [grade_request scenario_props (CodingExercise_mount scenario_props),
        grade_request scenario_props (CodingExercise_mount scenario_props)] \<and>
   length (inflight
     (current (exec scenario_props (mount_page scenario_props) [Event Click, Event Click]))) = 2"
  by (simp add: exec_Cons exec_Nil mount_page_def mount_def CodingExercise_render_def
        CodingExercise_mount_def handleSubmit_begin_def)

text \<open>
  C3, amended.  Once the render that shows the Submitting state is committed, the button
  is disabled and a click changes nothing, so it makes no call.  In every execution from
  the mount in which a commit separates any two clicks, at most one network call is
  outstanding; in particular in every run whose events each find the page up to date,
  where a click in the Submitting state is a no-op.
\<close>

theorem committed_clicks_one_call_in_flight:
  assumes "isGrading (rendered pg)" and "commit_between_clicks False acts"
  shows "dispatch p pg Click = pg \<and>
         length (inflight (current (exec p (mount_page p) acts))) \<le> 1 \<and>
         length (inflight (run p (mount p) es)) \<le> 1 \<and>
         (isGrading (ui s) \<longrightarrow>
            step p s Click = s \<and> inflight (step p s Click) = inflight s)"
proof -
  have "one_call (current (exec p (mount_page p) acts))"
    using click_safe_mount assms(2) by (rule click_safe_exec)
  moreover have "one_call (run p (mount p) es)"
    by (rule one_call_run) (rule one_call_mount)
  ultimately show ?thesis
    using assms(1) by (simp add: one_call_def step_Click_grading CodingExercise_render_def)
qed

theorem committed_clicks_one_call_in_flight_witness:
  "isGrading (rendered submitting_page) \<and>
   commit_between_clicks False patient_clicks \<and>
   dispatch scenario_props submitting_page Click = submitting_page \<and>
   length (inflight (current (exec scenario_props (mount_page scenario_props) patient_clicks)))
     \<le> 1 \<and>
   isGrading (ui (run scenario_props (mount scenario_props) [Click])) \<and>
   step scenario_props (run scenario_props (mount scenario_props) [Click]) Click
     = run scenario_props (mount scenario_props) [Click] \<and>
   length (inflight (run scenario_props (mount scenario_props) [Click, Click, Click])) \<le> 1"
proof -
  have h1: "isGrading (rendered submitting_page)"
    by (simp add: submitting_page_def exec_Cons exec_Nil commit_def mount_page_def mount_def
          CodingExercise_render_def CodingExercise_mount_def handleSubmit_begin_def)
  have h2: "commit_between_clicks False patient_clicks"
    by (simp add: patient_clicks_def)
  have g: "isGrading (ui (run scenario_props (mount scenario_props) [Click]))"
    by (simp add: run_Cons run_Nil step_Click_idle mount_idle)
  from committed_clicks_one_call_in_flight
         [OF h1 h2, of scenario_props "[Click, Click, Click]"
             "run scenario_props (mount scenario_props) [Click]"] h1 h2 g
  show ?thesis by simp
qed



text \<open>
  C5.  A successful submit from an idle widget runs, in this order:
  \<^verbatim>\<open>setIsGrading(true)\<close>; one \<^verbatim>\<open>fetch\<close> whose body carries the code and the two
  context strings; after the answer, \<^verbatim>\<open>setFeedback\<close> with the \<^verbatim>\<open>feedback\<close> property
  of the parsed body, which replaces whatever feedback was stored; and
  \<^verbatim>\<open>setIsGrading(false)\<close>.  After the click the widget is Submitting with that one
  call in flight; after the answer it is Idle with the new feedback and nothing in
  flight.
\<close>

theorem successful_submit_steps:
  assumes "\<not> isGrading (ui s)" and "inflight s = []"
    and "map_of kvs ''feedback'' = Some fb"
  shows "handleSubmit_begin p (ui s) = [SetIsGrading True, Fetch (grade_request p (ui s))] \<and>
         body (grade_request p (ui s)) =
           JObj [(''code'', JStr (code (ui s))),
                 (''lesson'', JStr (default_empty (lesson p))),
                 (''correction'', JStr (default_empty (correction p)))] \<and>
         handleSubmit_resume (Parsed st (JObj kvs))
           = Inr [SetFeedback (Json fb), SetIsGrading False] \<and>
         step p s Click
           = s\<lparr>ui := (ui s)\<lparr>isGrading := True\<rparr>, inflight := [grade_request p (ui s)]\<rparr> \<and>
         run p s [Click, Settle (Parsed st (JObj kvs))]
           = s\<lparr>ui := (ui s)\<lparr>feedback := Json fb, isGrading := False\<rparr>, inflight := []\<rparr>"
proof -
  from assms(3) have "read_feedback (JObj kvs) = Inr (Json fb)"
    by simp
  then have ok: "handleSubmit_resume (Parsed st (JObj kvs))
                   = Inr [SetFeedback (Json fb), SetIsGrading False]"
    by (rule resume_parsed)
  have click: "step p s Click
      = s\<lparr>ui := (ui s)\<lparr>isGrading := True\<rparr>, inflight := [grade_request p (ui s)]\<rparr>"
    using assms(1,2) by (simp add: step_Click_idle)
  have "run p s [Click, Settle (Parsed st (JObj kvs))]
      = s\<lparr>ui := (ui s)\<lparr>feedback := Json fb, isGrading := False\<rparr>, inflight := []\<rparr>"
    using ok by (simp add: run_Cons run_Nil click step_Settle_stored)
  with ok click show ?thesis
    by (simp add: handleSubmit_begin_def grade_request_def)
qed

theorem successful_submit_steps_witness:
  "\<not> isGrading (ui shown) \<and> inflight shown = [] \<and>
   map_of [(''feedback'', JStr ''Try again'')] ''feedback'' = Some (JStr ''Try again'') \<and>
   feedback (ui shown) = Json (JStr ''Looks good'') \<and>
   run scenario_props shown [Click, Settle (Parsed 200 (JObj [(''feedback'', JStr ''Try again'')]))]
     = \<lparr>ui = \<lparr>code = ''print('hi')'', isGrading = False,
               feedback = Json (JStr ''Try again'')\<rparr>,
         inflight = [], unhandled = []\<rparr>"
proof -
  have h1: "\<not> isGrading (ui shown)" and h2: "inflight shown = []"
    by (simp_all add: shown_eq)
  have h3: "map_of [(''feedback'', JStr ''Try again'')] ''feedback'' = Some (JStr ''Try again'')"
    by simp
  from successful_submit_steps [OF h1 h2 h3, of scenario_props 200]
  show ?thesis
    using h1 h2 h3 by (simp add: shown_eq)
qed

text \<open>
  C6.  For every seed string and every pair of context strings, the mounted widget has
  the seed as its editable text, is not submitting, has no call in flight, and shows no
  feedback: the feedback node is the bare empty string, not a panel.
\<close>

theorem mount_seed:
  "code (ui (mount \<lparr>initCode = Some seed, lesson = Some a, correction = Some b\<rparr>)) = seed \<and>
   \<not> isGrading (ui (mount \<lparr>initCode = Some seed, lesson = Some a, correction = Some b\<rparr>)) \<and>
   inflight (mount \<lparr>initCode = Some seed, lesson = Some a, correction = Some b\<rparr>) = [] \<and>
   CodingExercise_render
       (ui (mount \<lparr>initCode = Some seed, lesson = Some a, correction = Some b\<rparr>))
     = \<lparr>editor_value = seed, button_disabled = False, button_label = ''Submit'',
        feedback_node = Bare (Json (JStr ''''))\<rparr>"
  by (simp add: mount_def CodingExercise_mount_def CodingExercise_render_def default_empty_def)

text \<open>
  C7.  In every state, Idle or Submitting, an edit replaces the editable text with the
  new string and changes nothing else: the submitting flag, the feedback, the calls in
  flight and the unhandled rejections are as before, so it makes no network call and
  cannot fail.
\<close>

theorem edit_replaces_text:
  "step p s (Change v) = s\<lparr>ui := (ui s)\<lparr>code := v\<rparr>\<rparr> \<and>
   code (ui (step p s (Change v))) = v \<and>
   editor_value (CodingExercise_render (ui (step p s (Change v)))) = v \<and>
   isGrading (ui (step p s (Change v))) = isGrading (ui s) \<and>
   feedback (ui (step p s (Change v))) = feedback (ui s) \<and>
   inflight (step p s (Change v)) = inflight s \<and>
   unhandled (step p s (Change v)) = unhandled s \<and>
   fetches (onChange v) = []"
  by (simp add: step_Change CodingExercise_render_def onChange_def)

text \<open>
  C8.  Submitting never writes the code text: neither half of \<^verbatim>\<open>handleSubmit\<close> contains
  a \<^verbatim>\<open>setCode\<close>, so a click and the answer to a call both leave the text as it is, and
  an edit made while a submission is in flight is still there after the submission
  has resolved, however it resolves.
\<close>

theorem submit_leaves_code:
  "filter writes_code (handleSubmit_begin p w) = [] \<and>
   filter writes_code (case handleSubmit_resume out of Inl e \<Rightarrow> [] | Inr effs \<Rightarrow> effs) = [] \<and>
   code (ui (step p s Click)) = code (ui s) \<and>
   code (ui (step p s (Settle out))) = code (ui s) \<and>
   code (ui (run p s [Click, Change v, Settle out])) = v"
proof -
  have "filter writes_code (case handleSubmit_resume out of Inl e \<Rightarrow> [] | Inr effs \<Rightarrow> effs) = []"
    by (cases out rule: resume_cases) simp_all
  moreover have "code (ui (run p s [Click, Change v, Settle out])) = v"
    by (simp add: run_Cons run_Nil code_step_Settle step_Change)
  ultimately show ?thesis
    by (simp add: handleSubmit_begin_def code_step_Click code_step_Settle)
qed

text \<open>
  C9.  The feedback panel is rendered exactly when the stored feedback is truthy, which
  for a string means non-empty.  A successful answer whose \<^verbatim>\<open>feedback\<close> is the empty
  string brings a freshly mounted widget back to the very state it was mounted in, so
  it shows no feedback, as if nothing had been submitted.
\<close>

theorem feedback_panel_iff_truthy:
  "(\<exists>v. feedback_node (CodingExercise_render w) = Panel v) = truthy (feedback w) \<and>
   truthy (Json (JStr t)) = (t \<noteq> '''') \<and>
   run p (mount p) [Click, Settle (Parsed st (JObj [(''feedback'', JStr '''')]))] = mount p \<and>
   feedback_node (CodingExercise_render
       (ui (run p (mount p) [Click, Settle (Parsed st (JObj [(''feedback'', JStr '''')]))])))
     = Bare (Json (JStr ''''))"
proof -
  have "handleSubmit_resume (Parsed st (JObj [(''feedback'', JStr '''')]))
          = Inr [SetFeedback (Json (JStr '''')), SetIsGrading False]"
    by (simp add: handleSubmit_resume_def)
  then have "run p (mount p) [Click, Settle (Parsed st (JObj [(''feedback'', JStr '''')]))]
      = (mount p)\<lparr>inflight := [], ui := (ui (mount p))
           \<lparr>isGrading := True, feedback := Json (JStr ''''), isGrading := False\<rparr>\<rparr>"
    by (simp add: run_Cons run_Nil step_Click_idle mount_idle step_Settle_stored)
  then have again: "run p (mount p) [Click, Settle (Parsed st (JObj [(''feedback'', JStr '''')]))]
      = mount p"
    by (simp add: mount_def CodingExercise_mount_def)
  show ?thesis
    by (simp add: again) (simp add: CodingExercise_render_def mount_def CodingExercise_mount_def)
qed

text \<open>
  C10.  Each of the three props defaults to the empty string when it is omitted: an
  omitted \<^verbatim>\<open>initCode\<close> gives an empty editor, an omitted \<^verbatim>\<open>lesson\<close> or
  \<^verbatim>\<open>correction\<close> is sent as the empty string, and a widget created with no props starts
  with empty text and, on submit, sends empty strings for all three keys.
\<close>

theorem omitted_props_default_empty:
  "code (CodingExercise_mount (p\<lparr>initCode := None\<rparr>)) = '''' \<and>
   body (grade_request (p\<lparr>lesson := None\<rparr>) w) =
     JObj [(''code'', JStr (code w)), (''lesson'', JStr ''''),
           (''correction'', JStr (default_empty (correction p)))] \<and>
   body (grade_request (p\<lparr>correction := None\<rparr>) w) =
     JObj [(''code'', JStr (code w)), (''lesson'', JStr (default_empty (lesson p))),
           (''correction'', JStr '''')] \<and>
   editor_value (CodingExercise_render (ui (mount no_props))) = '''' \<and>
   map body (inflight (step no_props (mount no_props) Click)) =
     [JObj [(''code'', JStr ''''), (''lesson'', JStr ''''), (''correction'', JStr '''')]]"
  by (simp add: step_Click_idle mount_idle)
     (simp add: mount_def CodingExercise_mount_def CodingExercise_render_def grade_request_def
        default_empty_def no_props_def)

end
